theory Spec2Isabelle
  imports Main
begin

section \<open>Values of the program\<close>

text \<open>
  The bot (\<^verbatim>\<open>src/bot.py\<close>) reads JSON from a search API, keeps image posts per
  subreddit in the dictionary \<^verbatim>\<open>reddit_cache\<close>, and answers Telegram updates.
  A decoded JSON document is a Python value; Python's \<^verbatim>\<open>None\<close> is \<open>JNull\<close>.
  Numbers are kept by their integer value: the code only tests a number for truth
  and for the string methods it lacks. \<open>JObj\<close> holds the items of a decoded
  dictionary, so its keys are distinct; strings are lists of code units.
\<close>

datatype json =
    JNull
  | JBool bool
  | JNum int
  | JStr string
  | JArr "json list"
  | JObj "(string \<times> json) list"

text \<open>The exceptions the code can meet; all of them derive from \<^verbatim>\<open>Exception\<close>.\<close>

datatype exn =
    NetworkError
  | TimeoutError
  | JSONDecodeError
  | AttributeError
  | TypeError
  | IndexError
  | TelegramError

text \<open>A cached post: the dictionary with keys \<^verbatim>\<open>id\<close>, \<^verbatim>\<open>title\<close>, \<^verbatim>\<open>url\<close> built in \<^verbatim>\<open>fetch_subreddit\<close>.\<close>

record post =
  post_id :: json
  title :: json
  url :: json

datatype log_entry =
    FailedToFetch string exn
  | FetchedPosts nat string
  | NoPostsFound string
  | CacheUpdated
  | FailedToEditMedia exn

subsection \<open>Python primitives used by the code\<close>

text \<open>Truth value of a Python object (\<^verbatim>\<open>not x\<close> is its negation).\<close>

fun truthy :: "json \<Rightarrow> bool" where
  "truthy JNull = False"
| "truthy (JBool b) = b"
| "truthy (JNum n) = (n \<noteq> 0)"
| "truthy (JStr s) = (s \<noteq> [])"
| "truthy (JArr xs) = (xs \<noteq> [])"
| "truthy (JObj kvs) = (kvs \<noteq> [])"

text \<open>\<^verbatim>\<open>d.get(key, default)\<close>: only a dictionary has the method.\<close>

fun py_get :: "json \<Rightarrow> string \<Rightarrow> json \<Rightarrow> exn + json" where
  "py_get (JObj kvs) k dflt = Inr (case map_of kvs k of None \<Rightarrow> dflt | Some v \<Rightarrow> v)"
| "py_get v k dflt = Inl AttributeError"

text \<open>
  \<^verbatim>\<open>for post in value\<close>: a list gives its elements, a dictionary its keys, a string
  its characters; the other values are not iterable.
\<close>

fun py_iter :: "json \<Rightarrow> exn + json list" where
  "py_iter (JArr xs) = Inr xs"
| "py_iter (JObj kvs) = Inr (map (\<lambda>kv. JStr (fst kv)) kvs)"
| "py_iter (JStr s) = Inr (map (\<lambda>c. JStr [c]) s)"
| "py_iter v = Inl TypeError"

text \<open>\<^verbatim>\<open>str.lower\<close> on code units: the letters A to Z move to a to z.\<close>

definition lower_char :: "char \<Rightarrow> char" where
  "lower_char c =
     (if 65 \<le> (of_char c :: nat) \<and> (of_char c :: nat) \<le> 90
      then char_of ((of_char c :: nat) + 32) else c)"

fun py_lower :: "json \<Rightarrow> exn + string" where
  "py_lower (JStr s) = Inr (map lower_char s)"
| "py_lower v = Inl AttributeError"

definition endswith :: "string \<Rightarrow> string \<Rightarrow> bool" where
  "endswith s suf = (length suf \<le> length s \<and> drop (length s - length suf) s = suf)"

text \<open>\<^verbatim>\<open>random.choice(seq)\<close> with the raw random number \<open>r\<close> it draws.\<close>

definition random_choice :: "'a list \<Rightarrow> nat \<Rightarrow> exn + 'a" where
  "random_choice xs r = (if xs = [] then Inl IndexError else Inr (xs ! (r mod length xs)))"

text \<open>Decimal digits of a natural number, as an f-string prints an \<^verbatim>\<open>int\<close>.\<close>

fun show_nat :: "nat \<Rightarrow> string" where
  "show_nat n =
     (if n < 10 then [char_of (48 + n)]
      else show_nat (n div 10) @ [char_of (48 + n mod 10)])"

declare show_nat.simps [simp del]

section \<open>Configuration\<close>

definition SUBREDDITS :: "string list" where
  "SUBREDDITS =
     [''aww'', ''cuteanimals'', ''cats'', ''dogs'', ''puppies'', ''kittens'',
      ''babyanimals'', ''rarepuppers'', ''animalsbeingderps'', ''AnimalsBeingBros'',
      ''AnimalPhotography'', ''corgi'', ''hedgehog'', ''tuckedinkitties'', ''rabbits'',
      ''guineapigs'', ''otters'', ''babybeasts'', ''foxes'', ''cute'', ''smallanimals'',
      ''squirrels'', ''hamsters'', ''chickens'', ''parrots'', ''ferrets'', ''wildlife'',
      ''bunnies'', ''seal'', ''penguins'']"

definition MAX_POSTS_PER_SUB :: nat where
  "MAX_POSTS_PER_SUB = 50"

type_synonym cache = "string \<rightharpoonup> post list"

text \<open>\<^verbatim>\<open>reddit_cache = {sub: [] for sub in SUBREDDITS}\<close>\<close>

definition initial_cache :: cache where
  "initial_cache = map_of (map (\<lambda>sub. (sub, [])) SUBREDDITS)"

text \<open>\<^verbatim>\<open>reddit_cache.get(sub, [])\<close>; the key may be \<^verbatim>\<open>None\<close>, which is no key of the cache.\<close>

definition cache_get :: "cache \<Rightarrow> string option \<Rightarrow> post list" where
  "cache_get c k =
     (case k of None \<Rightarrow> []
      | Some sub \<Rightarrow> (case c sub of None \<Rightarrow> [] | Some ps \<Rightarrow> ps))"

section \<open>Fetching a subreddit\<close>

definition request_url :: "string \<Rightarrow> string" where
  "request_url sub =
     ''https://api.pullpush.io/reddit/submission/search'' @
     ''?subreddit='' @ sub @ ''&size='' @ show_nat MAX_POSTS_PER_SUB @
     ''&sort=new&type=link&over_18=false''"

definition image_exts :: "string list" where
  "image_exts = [''.jpg'', ''.jpeg'', ''.png'', ''.gif'']"

text \<open>\<^verbatim>\<open>any(img_url.lower().endswith(ext) for ext in [...])\<close> on the lowered string.\<close>

definition any_ext :: "string \<Rightarrow> bool" where
  "any_ext low = list_ex (\<lambda>ext. endswith low ext) image_exts"

text \<open>
  The body of the loop over the response's items (lines 69 to 78): it returns the
  list \<^verbatim>\<open>posts\<close> as the iteration leaves it, or the exception it raises.
\<close>

definition loop_body :: "json \<Rightarrow> post list \<Rightarrow> exn + post list" where
  "loop_body item posts =
     (case py_get item ''url'' JNull of
        Inl e \<Rightarrow> Inl e
      | Inr img_url \<Rightarrow>
          if \<not> truthy img_url then Inr posts
          else (case py_lower img_url of
                  Inl e \<Rightarrow> Inl e
                | Inr low \<Rightarrow>
                    if any_ext low then
                      (case py_get item ''id'' JNull of
                         Inl e \<Rightarrow> Inl e
                       | Inr i \<Rightarrow>
                           (case py_get item ''title'' (JStr ''(no title)'') of
                              Inl e \<Rightarrow> Inl e
                            | Inr t \<Rightarrow>
                                Inr (posts @ [\<lparr>post_id = i, title = t, url = img_url\<rparr>])))
                    else Inr posts))"

text \<open>
  The \<^verbatim>\<open>for\<close> loop: the list \<^verbatim>\<open>posts\<close> lives outside the \<^verbatim>\<open>try\<close>, so an exception
  in the body leaves in it what earlier iterations appended.
\<close>

fun for_items :: "json list \<Rightarrow> post list \<Rightarrow> post list \<times> exn option" where
  "for_items [] posts = (posts, None)"
| "for_items (item # rest) posts =
     (case loop_body item posts of
        Inl e \<Rightarrow> (posts, Some e)
      | Inr posts' \<Rightarrow> for_items rest posts')"

text \<open>\<^verbatim>\<open>data.get("data", [])\<close> made ready for iteration.\<close>

definition data_items :: "json \<Rightarrow> exn + json list" where
  "data_items data =
     (case py_get data ''data'' (JArr []) of
        Inl e \<Rightarrow> Inl e
      | Inr v \<Rightarrow> py_iter v)"

text \<open>
  \<^verbatim>\<open>fetch_subreddit(sub)\<close>. \<open>http u\<close> is what the GET of \<open>u\<close> followed by
  \<^verbatim>\<open>resp.json()\<close> gives: the decoded document, or the exception of the session,
  the request or the decoding. The result is the returned list and the log lines.
\<close>

definition fetch_subreddit ::
    "(string \<Rightarrow> exn + json) \<Rightarrow> string \<Rightarrow> post list \<times> log_entry list" where
  "fetch_subreddit http sub =
     (case http (request_url sub) of
        Inl e \<Rightarrow> ([], [FailedToFetch sub e])
      | Inr data \<Rightarrow>
          (case data_items data of
             Inl e \<Rightarrow> ([], [FailedToFetch sub e])
           | Inr items \<Rightarrow>
               (case for_items items [] of
                  (posts, None) \<Rightarrow> (posts, [])
                | (posts, Some e) \<Rightarrow> (posts, [FailedToFetch sub e]))))"

section \<open>The refresh cycle\<close>

text \<open>
  One iteration of the loop of \<^verbatim>\<open>update_all_subreddits\<close> (lines 89 to 94): the
  cache it leaves and the lines logged, those of the fetch first.
\<close>

definition refresh_sub ::
    "(string \<Rightarrow> exn + json) \<Rightarrow> string \<Rightarrow> cache \<Rightarrow> cache \<times> log_entry list" where
  "refresh_sub http sub c =
     (let (posts, warn) = fetch_subreddit http sub in
      if posts \<noteq> [] then (c(sub \<mapsto> posts), warn @ [FetchedPosts (length posts) sub])
      else (c, warn @ [NoPostsFound sub]))"

fun for_subs ::
    "(string \<Rightarrow> exn + json) \<Rightarrow> string list \<Rightarrow> cache \<Rightarrow> cache \<times> log_entry list" where
  "for_subs http [] c = (c, [])"
| "for_subs http (sub # rest) c =
     (let (c1, l1) = refresh_sub http sub c;
          (c2, l2) = for_subs http rest c1
      in (c2, l1 @ l2))"

definition update_all_subreddits ::
    "(string \<Rightarrow> exn + json) \<Rightarrow> cache \<Rightarrow> cache \<times> log_entry list" where
  "update_all_subreddits http c =
     (let (c', l) = for_subs http SUBREDDITS c in (c', l @ [CacheUpdated]))"

section \<open>Telegram handlers\<close>

text \<open>
  \<^verbatim>\<open>context.user_data\<close> of one conversation: the keys \<^verbatim>\<open>last_sub\<close> and \<^verbatim>\<open>last_post\<close>,
  each absent until a handler stores it.
\<close>

record session =
  last_sub :: "string option"
  last_post :: "post option"

text \<open>The callback query of a button press: its data, and the message it belongs to.\<close>

record callback_query =
  data :: string
  message_id :: int
  chat_id :: int

text \<open>
  The requests a handler sends to Telegram. A photo request carries the photo, the
  caption and the keyboard; \<open>EditMessageMedia\<close> is \<^verbatim>\<open>context.bot.edit_message_media\<close>
  with the chat and message ids, the \<open>Query\<close> requests are the methods of the
  callback query.
\<close>

datatype call =
    ReplyText string
  | ReplyPhoto json string "(string \<times> string) list"
  | EditMessageMedia int int json string "(string \<times> string) list"
  | QueryAnswer
  | QueryEditMessageCaption string
  | QueryEditMessageMedia json string "(string \<times> string) list"

text \<open>
  What a handler does not decide: \<open>tg\<close> tells which exception, if any, Telegram
  answers a request with; \<open>rnd k\<close> is the raw number of the \<open>k\<close>-th random draw
  of the invocation; \<open>str_other\<close> is Python's \<^verbatim>\<open>str()\<close> on a value that is not a string.
\<close>

record env =
  tg :: "call \<Rightarrow> exn option"
  rnd :: "nat \<Rightarrow> nat"
  str_other :: "json \<Rightarrow> string"

text \<open>
  The run of a handler: the session it leaves, the requests it has sent in order,
  the lines it has logged, and the exception that leaves the handler, if any.
\<close>

record outcome =
  session :: session
  calls :: "call list"
  logged :: "log_entry list"
  raised :: "exn option"

definition enter :: "session \<Rightarrow> outcome" where
  "enter s = \<lparr>session = s, calls = [], logged = [], raised = None\<rparr>"

definition do_call :: "env \<Rightarrow> call \<Rightarrow> outcome \<Rightarrow> outcome" where
  "do_call w c st = st\<lparr>calls := calls st @ [c], raised := tg w c\<rparr>"

text \<open>An f-string field: a string prints as itself.\<close>

fun py_str :: "env \<Rightarrow> json \<Rightarrow> string" where
  "py_str w (JStr s) = s"
| "py_str w v = str_other w v"

definition fmt_sub :: "string option \<Rightarrow> string" where
  "fmt_sub sub = (case sub of None \<Rightarrow> ''None'' | Some s \<Rightarrow> s)"

definition newline :: string where
  "newline = [CHR 0x0A]"

definition navigation_keyboard :: "(string \<times> string) list" where
  "navigation_keyboard =
     [([CHR 0xE2, CHR 0xAC, CHR 0x85, CHR 0xEF, CHR 0xB8, CHR 0x8F] @ '' Prev'', ''prev''),
      ([CHR 0xF0, CHR 0x9F, CHR 0x94, CHR 0x81] @ '' Random'', ''random''),
      ([CHR 0xE2, CHR 0x9E, CHR 0xA1, CHR 0xEF, CHR 0xB8, CHR 0x8F] @ '' Next'', ''next'')]"

definition greeting_text :: string where
  "greeting_text =
     ''Hey yx babe, Cheng is finding a random cute post'' @ [CHR 0xE2, CHR 0x80, CHR 0xA6]"

definition oops_text :: string where
  "oops_text = ''Oops, something went wrong lol, try again later.''"

text \<open>\<^verbatim>\<open>send_random_post(update, context, message_id)\<close>, continuing the run \<open>st\<close>.\<close>

definition send_random_post ::
    "env \<Rightarrow> cache \<Rightarrow> int \<Rightarrow> int option \<Rightarrow> outcome \<Rightarrow> outcome" where
  "send_random_post w c chat mid st =
     (case random_choice SUBREDDITS (rnd w 0) of
        Inl e \<Rightarrow> st\<lparr>raised := Some e\<rparr>
      | Inr sub \<Rightarrow>
          (let posts = cache_get c (Some sub) in
           if posts = [] then do_call w (ReplyText oops_text) st
           else
             (case random_choice posts (rnd w 1) of
                Inl e \<Rightarrow> st\<lparr>raised := Some e\<rparr>
              | Inr p \<Rightarrow>
                  (let st' = st\<lparr>session :=
                               (session st)\<lparr>last_sub := Some sub, last_post := Some p\<rparr>\<rparr>;
                       caption = py_str w (title p) @ newline @ ''/r/'' @ sub
                   in (case mid of
                         None \<Rightarrow> do_call w (ReplyPhoto (url p) caption navigation_keyboard) st'
                       | Some m \<Rightarrow>
                           if m \<noteq> 0 then
                             do_call w (EditMessageMedia chat m (url p) caption
                                          navigation_keyboard) st'
                           else
                             do_call w (ReplyPhoto (url p) caption navigation_keyboard) st')))))"

text \<open>The \<^verbatim>\<open>/start\<close> handler.\<close>

definition start :: "env \<Rightarrow> cache \<Rightarrow> int \<Rightarrow> session \<Rightarrow> outcome" where
  "start w c chat s =
     (let st1 = do_call w (ReplyText greeting_text) (enter s) in
      case raised st1 of
        Some e \<Rightarrow> st1
      | None \<Rightarrow> send_random_post w c chat None st1)"

text \<open>The handler of the three buttons.\<close>

definition button_handler :: "env \<Rightarrow> cache \<Rightarrow> callback_query \<Rightarrow> session \<Rightarrow> outcome" where
  "button_handler w c q s =
     (let st1 = do_call w QueryAnswer (enter s) in
      case raised st1 of
        Some e \<Rightarrow> st1
      | None \<Rightarrow>
          (let sub = last_sub (session st1);
               posts = cache_get c sub
           in if posts = [] then
                do_call w (QueryEditMessageCaption
                             (''No cached posts for r/'' @ fmt_sub sub @ ''.'')) st1
              else if data q = ''random'' then
                send_random_post w c (chat_id q) (Some (message_id q)) st1
              else
                (case random_choice posts (rnd w 0) of
                   Inl e \<Rightarrow> st1\<lparr>raised := Some e\<rparr>
                 | Inr new_post \<Rightarrow>
                     (let st2 = st1\<lparr>session := (session st1)\<lparr>last_post := Some new_post\<rparr>\<rparr>;
                          caption = py_str w (title new_post) @ newline @ ''/r/'' @ fmt_sub sub;
                          st3 = do_call w (QueryEditMessageMedia (url new_post) caption
                                             navigation_keyboard) st2
                      in (case raised st3 of
                            None \<Rightarrow> st3
                          | Some e \<Rightarrow>
                              st3\<lparr>raised := None,
                                  logged := logged st3 @ [FailedToEditMedia e]\<rparr>)))))"

section \<open>What a response holds\<close>

text \<open>
  The vocabulary in which the results are stated, read off a response without
  running the loop. \<open>url_of\<close> is the value under the key \<^verbatim>\<open>url\<close> (\<^verbatim>\<open>None\<close> when the key
  or the dictionary is missing), \<open>image_url\<close> says that a value is a string that ends,
  once lowered, in one of the four extensions, and \<open>post_of\<close> is the post built from
  an item. An item is \<open>malformed\<close> when reading it raises: it is no dictionary, or its
  url is a value other than a string that counts as true.
\<close>

definition url_of :: "json \<Rightarrow> json" where
  "url_of item =
     (case item of
        JObj kvs \<Rightarrow> (case map_of kvs ''url'' of None \<Rightarrow> JNull | Some v \<Rightarrow> v)
      | _ \<Rightarrow> JNull)"

definition image_url :: "json \<Rightarrow> bool" where
  "image_url v =
     (case v of JStr u \<Rightarrow> u \<noteq> [] \<and> any_ext (map lower_char u) | _ \<Rightarrow> False)"

definition malformed :: "json \<Rightarrow> bool" where
  "malformed item =
     (case item of
        JObj kvs \<Rightarrow> (case url_of item of JStr u \<Rightarrow> False | v \<Rightarrow> truthy v)
      | _ \<Rightarrow> True)"

definition post_of :: "json \<Rightarrow> post" where
  "post_of item =
     (case item of
        JObj kvs \<Rightarrow>
          \<lparr>post_id = (case map_of kvs ''id'' of None \<Rightarrow> JNull | Some v \<Rightarrow> v),
           title = (case map_of kvs ''title'' of None \<Rightarrow> JStr ''(no title)'' | Some v \<Rightarrow> v),
           url = url_of item\<rparr>
      | _ \<Rightarrow> \<lparr>post_id = JNull, title = JNull, url = JNull\<rparr>)"

text \<open>The posts of the image items that stand before the first malformed item.\<close>

definition kept :: "json list \<Rightarrow> post list" where
  "kept items =
     map post_of
       (filter (\<lambda>i. image_url (url_of i)) (takeWhile (\<lambda>i. \<not> malformed i) items))"

text \<open>The number of items a response offers to the loop; none when it cannot be read.\<close>

definition response_size :: "exn + json \<Rightarrow> nat" where
  "response_size r =
     (case r of
        Inl e \<Rightarrow> 0
      | Inr doc \<Rightarrow> (case data_items doc of Inl e \<Rightarrow> 0 | Inr items \<Rightarrow> length items))"

section \<open>Sample inputs\<close>

text \<open>The scenario of the specification: one cat picture cached, nothing for dogs.\<close>

definition cat_item :: json where
  "cat_item =
     JObj [(''id'', JStr ''1''), (''title'', JStr ''A cat''), (''url'', JStr ''http://x/a.jpg'')]"

definition cat_post :: post where
  "cat_post = \<lparr>post_id = JStr ''1'', title = JStr ''A cat'', url = JStr ''http://x/a.jpg''\<rparr>"

definition video_item :: json where
  "video_item =
     JObj [(''id'', JStr ''2''), (''title'', JStr ''A clip''), (''url'', JStr ''http://x/v.mp4'')]"

definition text_item :: json where
  "text_item = JObj [(''id'', JStr ''3''), (''title'', JStr ''No link'')]"

definition shout_item :: json where
  "shout_item = JObj [(''id'', JStr ''4''), (''url'', JStr ''HTTP://X/B.PNG'')]"

definition shout_post :: post where
  "shout_post =
     \<lparr>post_id = JStr ''4'', title = JStr ''(no title)'', url = JStr ''HTTP://X/B.PNG''\<rparr>"

definition old_post :: post where
  "old_post = \<lparr>post_id = JStr ''0'', title = JStr ''Old'', url = JStr ''http://x/old.png''\<rparr>"

definition ok_doc :: json where
  "ok_doc = JObj [(''data'', JArr [video_item, cat_item, text_item, shout_item])]"

definition partial_doc :: json where
  "partial_doc = JObj [(''data'', JArr [cat_item, JNull])]"

definition many_doc :: json where
  "many_doc = JObj [(''data'', JArr (replicate 51 cat_item))]"

definition http_ok :: "string \<Rightarrow> exn + json" where
  "http_ok u = Inr ok_doc"

definition http_down :: "string \<Rightarrow> exn + json" where
  "http_down u = Inl NetworkError"

definition http_no_data :: "string \<Rightarrow> exn + json" where
  "http_no_data u = Inr (JArr [cat_item])"

definition http_partial :: "string \<Rightarrow> exn + json" where
  "http_partial u = Inr partial_doc"

definition http_many :: "string \<Rightarrow> exn + json" where
  "http_many u = Inr many_doc"

definition http_dogs_down :: "string \<Rightarrow> exn + json" where
  "http_dogs_down u = (if u = request_url ''dogs'' then Inl TimeoutError else http_ok u)"

definition c_old :: cache where
  "c_old = initial_cache(''cats'' \<mapsto> [old_post], ''dogs'' \<mapsto> [old_post])"

definition c_cats :: cache where
  "c_cats = initial_cache(''cats'' \<mapsto> [cat_post])"

definition s_none :: session where
  "s_none = \<lparr>last_sub = None, last_post = None\<rparr>"

definition s_cats :: session where
  "s_cats = \<lparr>last_sub = Some ''cats'', last_post = Some cat_post\<rparr>"

definition w_cats :: env where
  "w_cats = \<lparr>tg = (\<lambda>c. None), rnd = (\<lambda>k. 2), str_other = (\<lambda>v. ''?'')\<rparr>"

definition w_dogs :: env where
  "w_dogs = \<lparr>tg = (\<lambda>c. None), rnd = (\<lambda>k. 3), str_other = (\<lambda>v. ''?'')\<rparr>"

definition w_edit_fails :: env where
  "w_edit_fails =
     \<lparr>tg = (\<lambda>c. case c of
                  EditMessageMedia chat m media cap kb \<Rightarrow> Some TelegramError
                | QueryEditMessageMedia media cap kb \<Rightarrow> Some TelegramError
                | _ \<Rightarrow> None),
      rnd = (\<lambda>k. 2), str_other = (\<lambda>v. ''?'')\<rparr>"

definition q_random :: callback_query where
  "q_random = \<lparr>data = ''random'', message_id = 7, chat_id = 1\<rparr>"

definition q_prev :: callback_query where
  "q_prev = \<lparr>data = ''prev'', message_id = 7, chat_id = 1\<rparr>"

definition q_next :: callback_query where
  "q_next = \<lparr>data = ''next'', message_id = 7, chat_id = 1\<rparr>"

section \<open>Properties of the primitives\<close>

lemma show_nat_50: "show_nat MAX_POSTS_PER_SUB = ''50''"
  unfolding MAX_POSTS_PER_SUB_def by code_simp

lemma request_url_size:
  "request_url sub =
     ''https://api.pullpush.io/reddit/submission/search?subreddit='' @ sub @
     ''&size=50&sort=new&type=link&over_18=false''"
  unfolding request_url_def show_nat_50 by simp

lemma request_url_inj: "request_url a = request_url b \<Longrightarrow> a = b"
  by (simp add: request_url_size)

lemma endswith_iff: "endswith s suf \<longleftrightarrow> (\<exists>pre. s = pre @ suf)"
proof
  assume "endswith s suf"
  then have "s = take (length s - length suf) s @ suf"
    by (metis append_take_drop_id endswith_def)
  then show "\<exists>pre. s = pre @ suf" ..
next
  assume "\<exists>pre. s = pre @ suf"
  then show "endswith s suf" by (auto simp: endswith_def)
qed

lemma image_url_iff:
  "image_url v \<longleftrightarrow>
     (\<exists>u pre ext. v = JStr u \<and> ext \<in> set image_exts \<and> map lower_char u = pre @ ext)"
proof (cases v)
  case (JStr u)
  have "u \<noteq> []" if "map lower_char u = pre @ ext" "ext \<in> set image_exts" for pre ext
    using that by (auto simp: image_exts_def)
  then show ?thesis
    using JStr by (auto simp: image_url_def any_ext_def list_ex_iff endswith_iff)
qed (simp_all add: image_url_def)

lemma random_choice_nonempty:
  "xs \<noteq> [] \<Longrightarrow> random_choice xs r = Inr (xs ! (r mod length xs))"
  by (simp add: random_choice_def)

lemma random_choice_in_set: "random_choice xs r = Inr x \<Longrightarrow> x \<in> set xs"
  by (auto simp: random_choice_def split: if_splits)

lemma random_choice_reaches:
  assumes "x \<in> set xs"
  shows "\<exists>r. random_choice xs r = Inr x"
proof -
  from assms obtain i where "i < length xs" "xs ! i = x"
    by (auto simp: in_set_conv_nth)
  then have "random_choice xs i = Inr x"
    by (auto simp: random_choice_def)
  then show ?thesis ..
qed

section \<open>The loop over the items\<close>

lemma loop_body_malformed:
  "malformed item \<Longrightarrow> loop_body item posts = Inl AttributeError"
  by (cases item; simp add: malformed_def loop_body_def url_of_def split: option.splits json.splits)

lemma loop_body_well_formed:
  "\<not> malformed item \<Longrightarrow>
   loop_body item posts =
     Inr (if image_url (url_of item) then posts @ [post_of item] else posts)"
  by (cases item; simp add: malformed_def loop_body_def url_of_def image_url_def post_of_def
        split: option.splits json.splits)

lemma for_items_kept:
  "for_items items posts =
     (posts @ kept items, if list_ex malformed items then Some AttributeError else None)"
proof (induction items arbitrary: posts)
  case Nil
  show ?case by (simp add: kept_def)
next
  case (Cons item rest)
  show ?case
  proof (cases "malformed item")
    case True
    then show ?thesis by (simp add: loop_body_malformed kept_def)
  next
    case False
    then show ?thesis
      by (simp add: loop_body_well_formed Cons.IH kept_def)
  qed
qed

lemma fetch_subreddit_request_failed:
  "http (request_url sub) = Inl e \<Longrightarrow> fetch_subreddit http sub = ([], [FailedToFetch sub e])"
  by (simp add: fetch_subreddit_def)

lemma fetch_subreddit_no_items:
  "http (request_url sub) = Inr doc \<Longrightarrow> data_items doc = Inl e \<Longrightarrow>
   fetch_subreddit http sub = ([], [FailedToFetch sub e])"
  by (simp add: fetch_subreddit_def)

lemma fetch_subreddit_items:
  "http (request_url sub) = Inr doc \<Longrightarrow> data_items doc = Inr items \<Longrightarrow>
   fetch_subreddit http sub =
     (kept items, if list_ex malformed items then [FailedToFetch sub AttributeError] else [])"
  by (simp add: fetch_subreddit_def for_items_kept)

lemma fetch_subreddit_cases:
  "(\<exists>e. http (request_url sub) = Inl e) \<or>
   (\<exists>doc e. http (request_url sub) = Inr doc \<and> data_items doc = Inl e) \<or>
   (\<exists>doc items. http (request_url sub) = Inr doc \<and> data_items doc = Inr items)"
  by (metis sumE)

lemma kept_image_urls: "list_all (\<lambda>p. image_url (url p)) (kept items)"
  by (induction items) (auto simp: kept_def post_of_def url_of_def list_all_iff split: json.splits)

lemma length_kept: "length (kept items) \<le> length items"
  unfolding kept_def
  by (simp add: le_trans[OF length_filter_le length_takeWhile_le])

lemma fetch_subreddit_image_urls:
  "list_all (\<lambda>p. image_url (url p)) (fst (fetch_subreddit http sub))"
  using fetch_subreddit_cases [of http sub]
  by (auto simp: fetch_subreddit_request_failed fetch_subreddit_no_items fetch_subreddit_items
      kept_image_urls)

lemma fetch_subreddit_length:
  "length (fst (fetch_subreddit http sub)) \<le> response_size (http (request_url sub))"
  using fetch_subreddit_cases [of http sub]
  by (auto simp: fetch_subreddit_request_failed fetch_subreddit_no_items fetch_subreddit_items
      length_kept response_size_def)

subsection \<open>The sample responses\<close>

lemma data_items_samples:
  "data_items ok_doc = Inr [video_item, cat_item, text_item, shout_item]"
  "data_items partial_doc = Inr [cat_item, JNull]"
  "data_items many_doc = Inr (replicate 51 cat_item)"
  "data_items (JArr [cat_item]) = Inl AttributeError"
  by (simp_all add: data_items_def ok_doc_def partial_doc_def many_doc_def)

lemma malformed_samples:
  "\<not> malformed video_item" "\<not> malformed cat_item" "\<not> malformed text_item"
  "\<not> malformed shout_item" "malformed JNull"
  by (simp_all add: malformed_def url_of_def video_item_def cat_item_def text_item_def
      shout_item_def)

lemma image_url_samples:
  "image_url (url_of cat_item)" "image_url (url_of shout_item)"
  "\<not> image_url (url_of video_item)" "\<not> image_url (url_of text_item)"
  by code_simp+

lemma post_of_samples: "post_of cat_item = cat_post" "post_of shout_item = shout_post"
  by (simp_all add: post_of_def url_of_def cat_item_def cat_post_def shout_item_def shout_post_def)

lemma kept_ok: "kept [video_item, cat_item, text_item, shout_item] = [cat_post, shout_post]"
  by (simp add: kept_def malformed_samples image_url_samples post_of_samples)

lemma kept_partial: "kept [cat_item, JNull] = [cat_post]"
  by (simp add: kept_def malformed_samples image_url_samples post_of_samples)

lemma kept_replicate: "kept (replicate n cat_item) = replicate n cat_post"
  by (induction n) (simp_all add: kept_def malformed_samples image_url_samples post_of_samples)

lemma fetch_ok: "fetch_subreddit http_ok sub = ([cat_post, shout_post], [])"
  using fetch_subreddit_items [of http_ok sub ok_doc, OF _ data_items_samples(1)]
  by (simp add: http_ok_def kept_ok malformed_samples)

lemma fetch_partial:
  "fetch_subreddit http_partial sub = ([cat_post], [FailedToFetch sub AttributeError])"
  using fetch_subreddit_items [of http_partial sub partial_doc, OF _ data_items_samples(2)]
  by (simp add: http_partial_def kept_partial malformed_samples)

lemma fetch_subreddit_items_fst:
  "http (request_url sub) = Inr doc \<Longrightarrow> data_items doc = Inr items \<Longrightarrow>
   fst (fetch_subreddit http sub) = kept items"
  by (simp add: fetch_subreddit_items)

lemma http_many_response: "http_many (request_url sub) = Inr many_doc"
  by (simp add: http_many_def)

lemma fetch_many: "fst (fetch_subreddit http_many sub) = replicate 51 cat_post"
  using fetch_subreddit_items_fst [of http_many sub many_doc "replicate 51 cat_item"]
  by (simp only: http_many_response data_items_samples kept_replicate)

section \<open>The refresh cycle, entry by entry\<close>

lemma fst_refresh_sub:
  "fst (refresh_sub http sub c) =
     (if fst (fetch_subreddit http sub) \<noteq> [] then c(sub \<mapsto> fst (fetch_subreddit http sub))
      else c)"
  by (simp add: refresh_sub_def split: prod.splits)

lemma for_subs_entry:
  "fst (for_subs http subs c) U =
     (if U \<in> set subs \<and> fst (fetch_subreddit http U) \<noteq> []
      then Some (fst (fetch_subreddit http U)) else c U)"
proof (induction subs arbitrary: c)
  case Nil
  show ?case by simp
next
  case (Cons sub rest)
  have "fst (for_subs http (sub # rest) c) = fst (for_subs http rest (fst (refresh_sub http sub c)))"
    by (simp split: prod.splits)
  then show ?case
    by (simp add: Cons.IH fst_refresh_sub)
qed

lemma update_all_entry:
  "fst (update_all_subreddits http c) U =
     (if U \<in> set SUBREDDITS \<and> fst (fetch_subreddit http U) \<noteq> []
      then Some (fst (fetch_subreddit http U)) else c U)"
  using for_subs_entry [of http SUBREDDITS c U]
  by (cases "for_subs http SUBREDDITS c") (simp add: update_all_subreddits_def)

lemma update_all_log_last: "last (snd (update_all_subreddits http c)) = CacheUpdated"
  by (simp add: update_all_subreddits_def split: prod.splits)

lemma fetch_subreddit_same_response:
  "http' (request_url U) = http (request_url U) \<Longrightarrow>
   fetch_subreddit http' U = fetch_subreddit http U"
  by (simp add: fetch_subreddit_def)

lemma fetch_dogs_down:
  "fetch_subreddit http_dogs_down ''dogs'' = ([], [FailedToFetch ''dogs'' TimeoutError])"
  "fetch_subreddit http_dogs_down ''cats'' = ([cat_post, shout_post], [])"
proof -
  show "fetch_subreddit http_dogs_down ''dogs'' = ([], [FailedToFetch ''dogs'' TimeoutError])"
    by (simp add: fetch_subreddit_request_failed http_dogs_down_def)
  have "request_url ''cats'' \<noteq> request_url ''dogs''"
    using request_url_inj [of "''cats''" "''dogs''"] by auto
  then have "http_dogs_down (request_url ''cats'') = http_ok (request_url ''cats'')"
    by (simp add: http_dogs_down_def)
  then show "fetch_subreddit http_dogs_down ''cats'' = ([cat_post, shout_post], [])"
    using fetch_subreddit_same_response [of http_dogs_down "''cats''" http_ok]
    by (simp add: fetch_ok)
qed

lemma in_SUBREDDITS: "''cats'' \<in> set SUBREDDITS" "''dogs'' \<in> set SUBREDDITS"
  by (simp_all add: SUBREDDITS_def)

lemma c_old_entries: "c_old ''cats'' = Some [old_post]" "c_old ''dogs'' = Some [old_post]"
  by (simp_all add: c_old_def)

section \<open>The handlers, path by path\<close>

lemma send_random_post_renders:
  "random_choice SUBREDDITS (rnd w 0) = Inr sub \<Longrightarrow> cache_get c (Some sub) \<noteq> [] \<Longrightarrow>
   random_choice (cache_get c (Some sub)) (rnd w 1) = Inr p \<Longrightarrow>
   send_random_post w c chat mid st =
     do_call w
       (case mid of
          None \<Rightarrow> ReplyPhoto (url p) (py_str w (title p) @ newline @ ''/r/'' @ sub)
                    navigation_keyboard
        | Some m \<Rightarrow>
            if m \<noteq> 0 then
              EditMessageMedia chat m (url p) (py_str w (title p) @ newline @ ''/r/'' @ sub)
                navigation_keyboard
            else ReplyPhoto (url p) (py_str w (title p) @ newline @ ''/r/'' @ sub)
                   navigation_keyboard)
       (st\<lparr>session := (session st)\<lparr>last_sub := Some sub, last_post := Some p\<rparr>\<rparr>)"
  by (simp add: send_random_post_def Let_def split: option.splits)

lemma send_random_post_empty:
  "random_choice SUBREDDITS (rnd w 0) = Inr sub \<Longrightarrow> cache_get c (Some sub) = [] \<Longrightarrow>
   send_random_post w c chat mid st = do_call w (ReplyText oops_text) st"
  by (simp add: send_random_post_def)

lemma start_renders:
  "tg w (ReplyText greeting_text) = None \<Longrightarrow>
   random_choice SUBREDDITS (rnd w 0) = Inr sub \<Longrightarrow> cache_get c (Some sub) \<noteq> [] \<Longrightarrow>
   random_choice (cache_get c (Some sub)) (rnd w 1) = Inr p \<Longrightarrow>
   calls (start w c chat s) =
     [ReplyText greeting_text,
      ReplyPhoto (url p) (py_str w (title p) @ newline @ ''/r/'' @ sub) navigation_keyboard] \<and>
   session (start w c chat s) = s\<lparr>last_sub := Some sub, last_post := Some p\<rparr>"
  by (simp add: start_def send_random_post_renders do_call_def enter_def)

lemma button_random_renders:
  "tg w QueryAnswer = None \<Longrightarrow> cache_get c (last_sub s) \<noteq> [] \<Longrightarrow>
   data q = ''random'' \<Longrightarrow> message_id q \<noteq> 0 \<Longrightarrow>
   random_choice SUBREDDITS (rnd w 0) = Inr sub \<Longrightarrow> cache_get c (Some sub) \<noteq> [] \<Longrightarrow>
   random_choice (cache_get c (Some sub)) (rnd w 1) = Inr p \<Longrightarrow>
   calls (button_handler w c q s) =
     [QueryAnswer,
      EditMessageMedia (chat_id q) (message_id q) (url p)
        (py_str w (title p) @ newline @ ''/r/'' @ sub) navigation_keyboard] \<and>
   session (button_handler w c q s) = s\<lparr>last_sub := Some sub, last_post := Some p\<rparr> \<and>
   logged (button_handler w c q s) = [] \<and>
   raised (button_handler w c q s) =
     tg w (EditMessageMedia (chat_id q) (message_id q) (url p)
        (py_str w (title p) @ newline @ ''/r/'' @ sub) navigation_keyboard)"
  by (simp add: button_handler_def send_random_post_renders do_call_def enter_def)

lemma button_next_prev_renders:
  "tg w QueryAnswer = None \<Longrightarrow> last_sub s = Some sub \<Longrightarrow> cache_get c (Some sub) \<noteq> [] \<Longrightarrow>
   data q \<noteq> ''random'' \<Longrightarrow>
   random_choice (cache_get c (Some sub)) (rnd w 0) = Inr p \<Longrightarrow>
   calls (button_handler w c q s) =
     [QueryAnswer,
      QueryEditMessageMedia (url p) (py_str w (title p) @ newline @ ''/r/'' @ sub)
        navigation_keyboard] \<and>
   session (button_handler w c q s) = s\<lparr>last_post := Some p\<rparr> \<and>
   raised (button_handler w c q s) = None \<and>
   logged (button_handler w c q s) =
     (case tg w (QueryEditMessageMedia (url p) (py_str w (title p) @ newline @ ''/r/'' @ sub)
        navigation_keyboard) of None \<Rightarrow> [] | Some e \<Rightarrow> [FailedToEditMedia e])"
  by (simp add: button_handler_def do_call_def enter_def fmt_sub_def Let_def split: option.splits)

lemma button_handler_data:
  "data q \<noteq> ''random'' \<Longrightarrow> data q' \<noteq> ''random'' \<Longrightarrow>
   button_handler w c q s = button_handler w c q' s"
  by (simp add: button_handler_def Let_def split: option.splits)

lemma button_handler_forgets_last_post:
  "data q \<noteq> ''random'' \<Longrightarrow>
   calls (button_handler w c q (s\<lparr>last_post := lp\<rparr>)) = calls (button_handler w c q s) \<and>
   logged (button_handler w c q (s\<lparr>last_post := lp\<rparr>)) = logged (button_handler w c q s) \<and>
   raised (button_handler w c q (s\<lparr>last_post := lp\<rparr>)) = raised (button_handler w c q s)"
  by (simp add: button_handler_def do_call_def enter_def Let_def split: option.splits sum.splits)

subsection \<open>The sample conversations\<close>

lemma chosen_samples:
  "random_choice SUBREDDITS 2 = Inr ''cats''" "random_choice SUBREDDITS 3 = Inr ''dogs''"
  by (simp_all add: random_choice_def SUBREDDITS_def)

lemma c_cats_entries:
  "cache_get c_cats (Some ''cats'') = [cat_post]" "cache_get c_cats (Some ''dogs'') = []"
  by (simp_all add: cache_get_def c_cats_def initial_cache_def SUBREDDITS_def)

lemma w_cats_facts:
  "tg w_cats call = None" "random_choice SUBREDDITS (rnd w_cats k) = Inr ''cats''"
  "random_choice (cache_get c_cats (Some ''cats'')) (rnd w_cats k) = Inr cat_post"
  "cache_get c_cats (Some ''cats'') \<noteq> []"
  by (simp_all add: w_cats_def chosen_samples c_cats_entries) (simp add: random_choice_def)

lemma w_dogs_facts:
  "tg w_dogs call = None" "random_choice SUBREDDITS (rnd w_dogs k) = Inr ''dogs''"
  by (simp_all add: w_dogs_def chosen_samples)

lemma w_edit_fails_facts:
  "tg w_edit_fails QueryAnswer = None"
  "tg w_edit_fails (EditMessageMedia chat m media cap kb) = Some TelegramError"
  "tg w_edit_fails (QueryEditMessageMedia media cap kb) = Some TelegramError"
  "random_choice SUBREDDITS (rnd w_edit_fails k) = Inr ''cats''"
  "random_choice (cache_get c_cats (Some ''cats'')) (rnd w_edit_fails k) = Inr cat_post"
  by (simp_all add: w_edit_fails_def chosen_samples c_cats_entries) (simp add: random_choice_def)

lemma s_cats_facts:
  "last_sub s_cats = Some ''cats''" "cache_get c_cats (last_sub s_cats) \<noteq> []"
  "s_cats\<lparr>last_post := Some cat_post\<rparr> = s_cats"
  "s_none\<lparr>last_sub := Some ''cats'', last_post := Some cat_post\<rparr> = s_cats"
  "s_cats\<lparr>last_sub := Some ''cats'', last_post := Some cat_post\<rparr> = s_cats"
  by (simp_all add: s_cats_def s_none_def c_cats_entries)

lemma q_facts:
  "data q_random = ''random''" "message_id q_random = 7" "chat_id q_random = 1"
  "data q_next \<noteq> ''random''" "data q_prev \<noteq> ''random''"
  "q_next\<lparr>data := ''next''\<rparr> = q_next" "q_next\<lparr>data := ''prev''\<rparr> = q_prev"
  by (simp_all add: q_random_def q_next_def q_prev_def)

lemma cat_post_fields: "title cat_post = JStr ''A cat''" "url cat_post = JStr ''http://x/a.jpg''"
  by (simp_all add: cat_post_def)

section \<open>The claims\<close>

subsection \<open>C1: caption and session of a rendered post\<close>

text \<open>
  Claim C1, as the code has it. Whenever a post is rendered, by \<^verbatim>\<open>/start\<close>, by the Random
  button or by Prev and Next, on a cache entry that is not empty, the caption sent or
  edited is the post's title, a newline, the text \<^verbatim>\<open>/r/\<close> and the subreddit's name, and
  afterwards \<^verbatim>\<open>last_sub\<close> is the subreddit drawn from and \<^verbatim>\<open>last_post\<close> the post shown. The
  caption is not the title, a newline, a slash and the name: the code writes \<^verbatim>\<open>/r/\<close> on
  both paths.
\<close>

theorem rendered_caption_and_session:
  "(tg w (ReplyText greeting_text) = None \<longrightarrow>
    random_choice SUBREDDITS (rnd w 0) = Inr sub \<longrightarrow> cache_get c (Some sub) \<noteq> [] \<longrightarrow>
    random_choice (cache_get c (Some sub)) (rnd w 1) = Inr p \<longrightarrow>
      calls (start w c chat s) =
        [ReplyText greeting_text,
         ReplyPhoto (url p) (py_str w (title p) @ newline @ ''/r/'' @ sub) navigation_keyboard] \<and>
      session (start w c chat s) = s\<lparr>last_sub := Some sub, last_post := Some p\<rparr>) \<and>
   (tg w QueryAnswer = None \<longrightarrow> cache_get c (last_sub s) \<noteq> [] \<longrightarrow>
    data q = ''random'' \<longrightarrow> message_id q \<noteq> 0 \<longrightarrow>
    random_choice SUBREDDITS (rnd w 0) = Inr sub \<longrightarrow> cache_get c (Some sub) \<noteq> [] \<longrightarrow>
    random_choice (cache_get c (Some sub)) (rnd w 1) = Inr p \<longrightarrow>
      calls (button_handler w c q s) =
        [QueryAnswer,
         EditMessageMedia (chat_id q) (message_id q) (url p)
           (py_str w (title p) @ newline @ ''/r/'' @ sub) navigation_keyboard] \<and>
      session (button_handler w c q s) = s\<lparr>last_sub := Some sub, last_post := Some p\<rparr>) \<and>
   (tg w QueryAnswer = None \<longrightarrow> last_sub s = Some sub' \<longrightarrow> cache_get c (Some sub') \<noteq> [] \<longrightarrow>
    data q \<noteq> ''random'' \<longrightarrow>
    random_choice (cache_get c (Some sub')) (rnd w 0) = Inr p' \<longrightarrow>
      calls (button_handler w c q s) =
        [QueryAnswer,
         QueryEditMessageMedia (url p') (py_str w (title p') @ newline @ ''/r/'' @ sub')
           navigation_keyboard] \<and>
      last_sub (session (button_handler w c q s)) = Some sub' \<and>
      last_post (session (button_handler w c q s)) = Some p')"
  using start_renders [of w sub c p chat s] button_random_renders [of w c s q sub p]
    button_next_prev_renders [of w s sub' c q p']
  by simp

text \<open>The three paths on the sample conversation: the caption is \<^verbatim>\<open>A cat\<close>, newline, \<^verbatim>\<open>/r/cats\<close>.\<close>

theorem rendered_caption_and_session_witness:
  "calls (start w_cats c_cats 1 s_none) =
     [ReplyText greeting_text,
      ReplyPhoto (JStr ''http://x/a.jpg'') (''A cat'' @ newline @ ''/r/cats'') navigation_keyboard] \<and>
   session (start w_cats c_cats 1 s_none) = s_cats \<and>
   calls (button_handler w_cats c_cats q_random s_cats) =
     [QueryAnswer,
      EditMessageMedia 1 7 (JStr ''http://x/a.jpg'') (''A cat'' @ newline @ ''/r/cats'')
        navigation_keyboard] \<and>
   session (button_handler w_cats c_cats q_random s_cats) = s_cats \<and>
   calls (button_handler w_cats c_cats q_next s_cats) =
     [QueryAnswer,
      QueryEditMessageMedia (JStr ''http://x/a.jpg'') (''A cat'' @ newline @ ''/r/cats'')
        navigation_keyboard] \<and>
   last_sub (session (button_handler w_cats c_cats q_next s_cats)) = Some ''cats'' \<and>
   last_post (session (button_handler w_cats c_cats q_next s_cats)) = Some cat_post"
  using rendered_caption_and_session
      [of w_cats "''cats''" c_cats cat_post 1 s_none q_random "''cats''" cat_post]
    rendered_caption_and_session
      [of w_cats "''cats''" c_cats cat_post 1 s_cats q_random "''cats''" cat_post]
    rendered_caption_and_session
      [of w_cats "''cats''" c_cats cat_post 1 s_cats q_next "''cats''" cat_post]
  by (simp add: w_cats_facts s_cats_facts q_facts cat_post_fields)

text \<open>
  The scenario of the specification: \<^verbatim>\<open>/start\<close> on the cat picture sends the caption with
  \<^verbatim>\<open>/r/cats\<close>, which is not the caption \<^verbatim>\<open>A cat\<close>, newline, \<^verbatim>\<open>/cats\<close> that C1 states.
\<close>

theorem caption_r_prefix_counterexample:
  "calls (start w_cats c_cats 1 s_none) =
     [ReplyText greeting_text,
      ReplyPhoto (JStr ''http://x/a.jpg'') (''A cat'' @ newline @ ''/r/cats'') navigation_keyboard] \<and>
   ''A cat'' @ newline @ ''/r/cats'' \<noteq> ''A cat'' @ newline @ ''/'' @ ''cats''"
  using start_renders [of w_cats "''cats''" c_cats cat_post 1 s_none]
  by (simp add: w_cats_facts cat_post_fields)

subsection \<open>C2: a failing edit\<close>

text \<open>
  Claim C2 says that a failing edit is logged and swallowed for all three buttons. The
  code does so for Prev and Next only. On the sample conversation, with Telegram
  refusing every media edit, the Random button lets the exception leave the handler
  and logs nothing, while Prev logs the failure and returns.
\<close>

theorem random_button_edit_failure_propagates:
  "raised (button_handler w_edit_fails c_cats q_random s_cats) = Some TelegramError \<and>
   logged (button_handler w_edit_fails c_cats q_random s_cats) = [] \<and>
   raised (button_handler w_edit_fails c_cats q_prev s_cats) = None \<and>
   logged (button_handler w_edit_fails c_cats q_prev s_cats) = [FailedToEditMedia TelegramError]"
  using button_random_renders [of w_edit_fails c_cats s_cats q_random "''cats''" cat_post]
    button_next_prev_renders [of w_edit_fails s_cats "''cats''" c_cats q_prev cat_post]
  by (simp add: w_edit_fails_facts s_cats_facts q_facts w_cats_facts(4))

subsection \<open>C3: errors of the fetch\<close>

text \<open>
  Claim C3, as the code has it. No error of the fetch reaches the caller:
  \<open>fetch_subreddit\<close> always returns a list, and logs a warning when an exception was
  caught. The list is empty when the request, the timeout or the decoding fails, and
  when the document offers nothing to iterate over. When an item of the response is
  malformed, the list holds the posts of the image items before that item, so it need
  not be empty. Without a malformed item nothing is logged.
\<close>

theorem fetch_subreddit_swallows_errors:
  "(\<forall>e. http (request_url sub) = Inl e \<longrightarrow>
        fetch_subreddit http sub = ([], [FailedToFetch sub e])) \<and>
   (\<forall>doc e. http (request_url sub) = Inr doc \<longrightarrow> data_items doc = Inl e \<longrightarrow>
        fetch_subreddit http sub = ([], [FailedToFetch sub e])) \<and>
   (\<forall>doc items. http (request_url sub) = Inr doc \<longrightarrow> data_items doc = Inr items \<longrightarrow>
        list_ex malformed items \<longrightarrow>
        fetch_subreddit http sub = (kept items, [FailedToFetch sub AttributeError])) \<and>
   (\<forall>doc items. http (request_url sub) = Inr doc \<longrightarrow> data_items doc = Inr items \<longrightarrow>
        \<not> list_ex malformed items \<longrightarrow>
        fetch_subreddit http sub = (kept items, []))"
  by (simp add: fetch_subreddit_request_failed fetch_subreddit_no_items fetch_subreddit_items)

text \<open>
  A network failure, a document that is a list and not a dictionary, a \<^verbatim>\<open>null\<close> after
  one good item, and a response without a malformed item.
\<close>

theorem fetch_subreddit_swallows_errors_witness:
  "fetch_subreddit http_down ''cats'' = ([], [FailedToFetch ''cats'' NetworkError]) \<and>
   fetch_subreddit http_no_data ''cats'' = ([], [FailedToFetch ''cats'' AttributeError]) \<and>
   fetch_subreddit http_partial ''cats'' = ([cat_post], [FailedToFetch ''cats'' AttributeError]) \<and>
   fetch_subreddit http_ok ''cats'' = ([cat_post, shout_post], [])"
  using fetch_subreddit_swallows_errors [of http_down "''cats''"]
    fetch_subreddit_swallows_errors [of http_no_data "''cats''"]
    fetch_subreddit_swallows_errors [of http_partial "''cats''"]
    fetch_subreddit_swallows_errors [of http_ok "''cats''"]
  by (simp add: http_down_def http_no_data_def http_partial_def http_ok_def data_items_samples
      kept_partial kept_ok malformed_samples)

text \<open>
  The response whose second item is \<^verbatim>\<open>null\<close>: the fetch fails, the warning is logged, and
  the returned list is not empty.
\<close>

theorem fetch_error_nonempty_counterexample:
  "snd (fetch_subreddit http_partial ''cats'') = [FailedToFetch ''cats'' AttributeError] \<and>
   fst (fetch_subreddit http_partial ''cats'') = [cat_post]"
  by (simp add: fetch_partial)

subsection \<open>C4: the number of posts returned\<close>

text \<open>
  Claim C4, as the code has it. The list returned has at most as many posts as the
  response has items. The code asks the API for at most 50 items (\<^verbatim>\<open>size=50\<close> in the
  request) and does not cut the response: the bound of \<open>MAX_POSTS_PER_SUB\<close> holds when
  the response has at most that many items.
\<close>

theorem fetch_subreddit_length_bound:
  "length (fst (fetch_subreddit http sub)) \<le> response_size (http (request_url sub)) \<and>
   (response_size (http (request_url sub)) \<le> MAX_POSTS_PER_SUB \<longrightarrow>
      length (fst (fetch_subreddit http sub)) \<le> MAX_POSTS_PER_SUB) \<and>
   request_url sub =
     ''https://api.pullpush.io/reddit/submission/search?subreddit='' @ sub @
     ''&size=50&sort=new&type=link&over_18=false''"
  using fetch_subreddit_length [of http sub] request_url_size [of sub] by simp

theorem fetch_subreddit_length_bound_witness:
  "response_size (http_ok (request_url ''cats'')) = 4 \<and>
   4 \<le> MAX_POSTS_PER_SUB \<and>
   length (fst (fetch_subreddit http_ok ''cats'')) \<le> MAX_POSTS_PER_SUB"
  using fetch_subreddit_length_bound [of http_ok "''cats''"]
  by (simp add: response_size_def http_ok_def data_items_samples MAX_POSTS_PER_SUB_def)

text \<open>A response of 51 image items gives 51 posts.\<close>

theorem fetch_over_max_counterexample:
  "length (fst (fetch_subreddit http_many ''cats'')) = 51 \<and>
   \<not> length (fst (fetch_subreddit http_many ''cats'')) \<le> MAX_POSTS_PER_SUB"
  by (simp add: fetch_many MAX_POSTS_PER_SUB_def)

subsection \<open>C5: a refresh replaces the entry\<close>

text \<open>
  Claim C5. When the fetch of a subreddit \<open>T\<close> returns the posts \<open>P\<close> and \<open>P\<close> is not
  empty, the cache entry of \<open>T\<close> after the refresh step is \<open>P\<close>, whatever the entry held
  before; for a configured subreddit the same holds after the whole cycle.
\<close>

theorem refresh_replaces_entry:
  "fst (fetch_subreddit http T) = P \<Longrightarrow> P \<noteq> [] \<Longrightarrow>
   cache_get (fst (refresh_sub http T c)) (Some T) = P \<and>
   (T \<in> set SUBREDDITS \<longrightarrow> cache_get (fst (update_all_subreddits http c)) (Some T) = P)"
  by (simp add: cache_get_def fst_refresh_sub update_all_entry)

theorem refresh_replaces_entry_witness:
  "fst (fetch_subreddit http_ok ''cats'') = [cat_post, shout_post] \<and>
   ''cats'' \<in> set SUBREDDITS \<and>
   cache_get c_old (Some ''cats'') = [old_post] \<and>
   cache_get (fst (refresh_sub http_ok ''cats'' c_old)) (Some ''cats'') = [cat_post, shout_post] \<and>
   cache_get (fst (update_all_subreddits http_ok c_old)) (Some ''cats'') = [cat_post, shout_post]"
  using refresh_replaces_entry [of http_ok "''cats''" "[cat_post, shout_post]" c_old]
  by (simp add: fetch_ok in_SUBREDDITS cache_get_def c_old_entries)

subsection \<open>C6: a failed fetch and the cache\<close>

text \<open>
  Claim C6, as the code has it. A fetch that returns no posts leaves the entry of its
  subreddit \<open>T\<close> as it was; every failure of the request, the timeout or the decoding
  is such a fetch. A fetch that returns posts replaces the entry by them, also when
  it failed at a later item. In every case the cycle runs to its last log line, and
  the entry of another subreddit \<open>U\<close> is the same as in a cycle that differs only in
  the response for \<open>T\<close>.
\<close>

theorem fetch_failure_isolated:
  "(fst (fetch_subreddit http T) = [] \<longrightarrow> fst (update_all_subreddits http c) T = c T) \<and>
   (\<forall>e. http (request_url T) = Inl e \<longrightarrow> fst (update_all_subreddits http c) T = c T) \<and>
   (T \<in> set SUBREDDITS \<longrightarrow> fst (fetch_subreddit http T) \<noteq> [] \<longrightarrow>
      fst (update_all_subreddits http c) T = Some (fst (fetch_subreddit http T))) \<and>
   ((\<forall>u. u \<noteq> request_url T \<longrightarrow> http' u = http u) \<longrightarrow> U \<noteq> T \<longrightarrow>
      fst (update_all_subreddits http' c) U = fst (update_all_subreddits http c) U) \<and>
   last (snd (update_all_subreddits http c)) = CacheUpdated"
proof -
  have "fetch_subreddit http' U = fetch_subreddit http U"
    if "\<forall>u. u \<noteq> request_url T \<longrightarrow> http' u = http u" "U \<noteq> T"
  proof -
    from that(2) have "request_url U \<noteq> request_url T"
      using request_url_inj by blast
    with that(1) have "http' (request_url U) = http (request_url U)"
      by simp
    then show ?thesis
      by (rule fetch_subreddit_same_response)
  qed
  then show ?thesis
    by (simp add: update_all_entry update_all_log_last fetch_subreddit_request_failed)
qed

text \<open>
  The request for dogs times out, every other request succeeds: the entry of dogs
  stays, and the entry of cats is the one of the cycle in which dogs succeed too.
\<close>

theorem fetch_failure_isolated_witness:
  "fst (fetch_subreddit http_dogs_down ''dogs'') = [] \<and>
   fst (update_all_subreddits http_dogs_down c_old) ''dogs'' = Some [old_post] \<and>
   fst (update_all_subreddits http_ok c_old) ''cats'' =
     fst (update_all_subreddits http_dogs_down c_old) ''cats'' \<and>
   fst (update_all_subreddits http_ok c_old) ''cats'' = Some [cat_post, shout_post]"
proof -
  have same: "\<forall>u. u \<noteq> request_url ''dogs'' \<longrightarrow> http_ok u = http_dogs_down u"
    by (simp add: http_dogs_down_def)
  show ?thesis
    using fetch_failure_isolated
      [where http = http_dogs_down and T = "''dogs''" and c = c_old and http' = http_ok
        and U = "''cats''"]
    by (simp add: same fetch_dogs_down c_old_entries)
      (simp add: update_all_entry in_SUBREDDITS fetch_dogs_down)
qed

text \<open>
  The response whose second item is \<^verbatim>\<open>null\<close>: the fetch of cats fails, and the cycle
  replaces the entry of cats.
\<close>

theorem failed_fetch_changes_entry_counterexample:
  "snd (fetch_subreddit http_partial ''cats'') = [FailedToFetch ''cats'' AttributeError] \<and>
   cache_get c_old (Some ''cats'') = [old_post] \<and>
   cache_get (fst (update_all_subreddits http_partial c_old)) (Some ''cats'') = [cat_post]"
  by (simp add: update_all_entry in_SUBREDDITS cache_get_def fetch_partial c_old_entries)

subsection \<open>C7: only image posts are returned\<close>

text \<open>
  Claim C7. Every post returned has a url that is a string and ends, letters lowered,
  in \<^verbatim>\<open>.jpg\<close>, \<^verbatim>\<open>.jpeg\<close>, \<^verbatim>\<open>.png\<close> or \<^verbatim>\<open>.gif\<close>. The returned posts are those of the items
  read with such a url, in order: an item whose url is missing, empty or ends
  otherwise contributes nothing.
\<close>

theorem fetch_subreddit_only_images:
  "list_all
     (\<lambda>p. \<exists>u pre ext. url p = JStr u \<and> ext \<in> set image_exts \<and> map lower_char u = pre @ ext)
     (fst (fetch_subreddit http sub)) \<and>
   (\<forall>doc items. http (request_url sub) = Inr doc \<longrightarrow> data_items doc = Inr items \<longrightarrow>
      fst (fetch_subreddit http sub) =
        map post_of (filter (\<lambda>i. image_url (url_of i))
                       (takeWhile (\<lambda>i. \<not> malformed i) items)))"
proof -
  have "list_all
     (\<lambda>p. \<exists>u pre ext. url p = JStr u \<and> ext \<in> set image_exts \<and> map lower_char u = pre @ ext)
     (fst (fetch_subreddit http sub))"
    using fetch_subreddit_image_urls [of http sub] by (simp add: image_url_iff)
  then show ?thesis
    by (simp add: fetch_subreddit_items kept_def)
qed

text \<open>
  The sample response: the clip and the post without a link are dropped, the picture
  and the one with the upper-case extension are kept.
\<close>

theorem fetch_subreddit_only_images_witness:
  "fst (fetch_subreddit http_ok ''cats'') = [cat_post, shout_post] \<and>
   image_url (url_of cat_item) \<and> image_url (url_of shout_item) \<and>
   \<not> image_url (url_of video_item) \<and> \<not> image_url (url_of text_item)"
  using fetch_subreddit_only_images [of http_ok "''cats''"]
  by (simp add: http_ok_def data_items_samples malformed_samples image_url_samples
      post_of_samples)

subsection \<open>C8: the start handler on an empty entry\<close>

text \<open>
  Claim C8. When Telegram has taken the greeting and the subreddit drawn has an empty
  cache entry, \<^verbatim>\<open>/start\<close> sends the fixed failure text and nothing else, and the session
  is the one before; the handler ends with whatever sending that text gives.
\<close>

theorem start_empty_cache:
  "tg w (ReplyText greeting_text) = None \<Longrightarrow>
   random_choice SUBREDDITS (rnd w 0) = Inr sub \<Longrightarrow> cache_get c (Some sub) = [] \<Longrightarrow>
   calls (start w c chat s) = [ReplyText greeting_text, ReplyText oops_text] \<and>
   session (start w c chat s) = s \<and>
   logged (start w c chat s) = [] \<and>
   raised (start w c chat s) = tg w (ReplyText oops_text)"
  by (simp add: start_def send_random_post_empty do_call_def enter_def)

theorem start_empty_cache_witness:
  "cache_get c_cats (Some ''dogs'') = [] \<and>
   calls (start w_dogs c_cats 1 s_cats) =
     [ReplyText greeting_text,
      ReplyText ''Oops, something went wrong lol, try again later.''] \<and>
   session (start w_dogs c_cats 1 s_cats) = s_cats \<and>
   raised (start w_dogs c_cats 1 s_cats) = None"
  using start_empty_cache [of w_dogs "''dogs''" c_cats 1 s_cats]
  by (simp add: c_cats_entries w_dogs_facts oops_text_def)

subsection \<open>C9: Next and Prev\<close>

text \<open>
  Claim C9. The handler gives the same run for \<^verbatim>\<open>next\<close> and for \<^verbatim>\<open>prev\<close>, on every session,
  cache and environment. On an entry that is not empty the run draws one post of the
  entry of \<^verbatim>\<open>last_sub\<close>, stores it as \<^verbatim>\<open>last_post\<close>, edits the message and returns; the
  requests sent do not depend on the post shown before. The draw is modelled by its
  raw number, so that it is uniform is not part of the statement.
\<close>

theorem next_prev_identical:
  "button_handler w c (q\<lparr>data := ''next''\<rparr>) s = button_handler w c (q\<lparr>data := ''prev''\<rparr>) s \<and>
   (tg w QueryAnswer = None \<longrightarrow> last_sub s = Some sub \<longrightarrow> cache_get c (Some sub) \<noteq> [] \<longrightarrow>
    random_choice (cache_get c (Some sub)) (rnd w 0) = Inr p \<longrightarrow>
      p \<in> set (cache_get c (Some sub)) \<and>
      session (button_handler w c (q\<lparr>data := ''next''\<rparr>) s) = s\<lparr>last_post := Some p\<rparr> \<and>
      calls (button_handler w c (q\<lparr>data := ''next''\<rparr>) s) =
        [QueryAnswer,
         QueryEditMessageMedia (url p) (py_str w (title p) @ newline @ ''/r/'' @ sub)
           navigation_keyboard] \<and>
      raised (button_handler w c (q\<lparr>data := ''next''\<rparr>) s) = None) \<and>
   calls (button_handler w c (q\<lparr>data := ''next''\<rparr>) (s\<lparr>last_post := lp\<rparr>)) =
     calls (button_handler w c (q\<lparr>data := ''next''\<rparr>) s)"
  using button_handler_data [of "q\<lparr>data := ''next''\<rparr>" "q\<lparr>data := ''prev''\<rparr>" w c s]
    button_next_prev_renders [of w s sub c "q\<lparr>data := ''next''\<rparr>" p]
    button_handler_forgets_last_post
      [where q = "q\<lparr>data := ''next''\<rparr>" and w = w and c = c and s = s and lp = lp]
    random_choice_in_set [of "cache_get c (Some sub)" "rnd w 0" p]
  by simp

theorem next_prev_identical_witness:
  "button_handler w_cats c_cats q_next s_cats = button_handler w_cats c_cats q_prev s_cats \<and>
   cat_post \<in> set (cache_get c_cats (Some ''cats'')) \<and>
   session (button_handler w_cats c_cats q_next s_cats) = s_cats \<and>
   calls (button_handler w_cats c_cats q_next s_cats) =
     [QueryAnswer,
      QueryEditMessageMedia (JStr ''http://x/a.jpg'') (''A cat'' @ newline @ ''/r/cats'')
        navigation_keyboard] \<and>
   raised (button_handler w_cats c_cats q_next s_cats) = None"
  using next_prev_identical
    [where w = w_cats and c = c_cats and q = q_next and s = s_cats and sub = "''cats''"
      and p = cat_post and lp = None]
  by (auto simp add: w_cats_facts s_cats_facts q_facts cat_post_fields)

subsection \<open>C10: a button press without a session\<close>

text \<open>
  Claim C10. When \<^verbatim>\<open>last_sub\<close> is absent the handler reads an empty cache entry: once the
  query is answered it sends one request, the caption \<^verbatim>\<open>No cached posts for r/None.\<close>,
  and leaves the session as it was and the log empty. The missing subreddit raises
  nothing: the handler ends with what Telegram gives for that request, and when the
  answer itself is refused it ends with that exception.
\<close>

theorem button_without_session:
  "last_sub s = None \<Longrightarrow>
   session (button_handler w c q s) = s \<and>
   logged (button_handler w c q s) = [] \<and>
   (tg w QueryAnswer = None \<longrightarrow>
      calls (button_handler w c q s) =
        [QueryAnswer, QueryEditMessageCaption ''No cached posts for r/None.''] \<and>
      raised (button_handler w c q s) =
        tg w (QueryEditMessageCaption ''No cached posts for r/None.'')) \<and>
   (\<forall>e. tg w QueryAnswer = Some e \<longrightarrow>
      calls (button_handler w c q s) = [QueryAnswer] \<and> raised (button_handler w c q s) = Some e)"
  by (simp add: button_handler_def do_call_def enter_def cache_get_def fmt_sub_def Let_def
      split: option.splits)

theorem button_without_session_witness:
  "last_sub s_none = None \<and>
   session (button_handler w_cats c_cats q_next s_none) = s_none \<and>
   calls (button_handler w_cats c_cats q_next s_none) =
     [QueryAnswer, QueryEditMessageCaption ''No cached posts for r/None.''] \<and>
   raised (button_handler w_cats c_cats q_next s_none) = None"
proof -
  have none: "last_sub s_none = None" by (simp add: s_none_def)
  show ?thesis
    using button_without_session [OF none, of w_cats c_cats q_next]
    by (simp add: none w_cats_facts)
qed

end
